theory Spec2Isabelle
  imports Complex_Main "HOL-Library.Monad_Syntax" "HOL-Library.Sublist"
begin

section \<open>Data model of the step plotter\<close>

text \<open>
  The development embeds \<^verbatim>\<open>plotter/step.go\<close> in its two versions: the current one
  (fields \<^verbatim>\<open>StepStyle\<close>, \<^verbatim>\<open>FillColor\<close>) and the earlier one
  (fields \<^verbatim>\<open>StepType\<close>, \<^verbatim>\<open>ShadeColor\<close>).

  Go's \<^verbatim>\<open>float64\<close> and \<^verbatim>\<open>vg.Length\<close> are idealised as \<^typ>\<open>real\<close>: infinities and NaN
  are outside the model. The rounding of float64 arithmetic is modelled where the
  plotter computes a vertex of a path, the midpoint of the Mid style (\<open>f64_mid\<close>
  below); the midpoint of the thumbnail is kept exact. Go's \<^verbatim>\<open>int\<close> is \<^typ>\<open>int\<close>; the only integer
  arithmetic is on slice lengths and loop indices, far from any overflow.
  A run-time panic (index or slice bound out of range) is the value \<open>None\<close>.
\<close>

text \<open>\<^verbatim>\<open>plotter.XY\<close>: a point in data space.\<close>

record XY =
  X :: real
  Y :: real

text \<open>\<^verbatim>\<open>vg.Point\<close>: a point in device space.\<close>

record Point =
  X :: real
  Y :: real

text \<open>
  \<^verbatim>\<open>vg.PathComp\<close>, restricted to the three kinds of component that \<^verbatim>\<open>Path.Move\<close>,
  \<^verbatim>\<open>Path.Line\<close> and \<^verbatim>\<open>Path.Close\<close> append. A \<^verbatim>\<open>vg.Path\<close> is the slice of its components.
\<close>

datatype PathComp = Move Point | Line Point | Close

type_synonym Path = "PathComp list"

text \<open>
  \<^verbatim>\<open>type StepKind int\<close> with the constants \<^verbatim>\<open>PreStep = iota\<close>, \<^verbatim>\<open>MidStep\<close>, \<^verbatim>\<open>PostStep\<close>.
  The type is an integer, so values other than the three constants exist.
\<close>

type_synonym StepKind = int

definition PreStep :: StepKind where
  "PreStep = 0"

definition MidStep :: StepKind where
  "MidStep = 1"

definition PostStep :: StepKind where
  "PostStep = 2"

text \<open>
  \<^verbatim>\<open>type Step struct\<close>. The colour type \<open>'c\<close> and the line style type \<open>'l\<close> are opaque to
  the plotter; the nil-able \<^verbatim>\<open>*draw.LineStyle\<close> and \<^verbatim>\<open>color.Color\<close> are options.
\<close>

record ('c, 'l) Step =
  XYs :: "XY list"
  StepStyle :: StepKind
  LineStyle :: "'l option"
  FillColor :: "'c option"

text \<open>
  The calls that \<^verbatim>\<open>Plot\<close> and \<^verbatim>\<open>Thumbnail\<close> make on the canvas, in the order made:
  \<^verbatim>\<open>SetColor\<close>, \<^verbatim>\<open>Fill\<close>, \<^verbatim>\<open>SetLineStyle\<close>, \<^verbatim>\<open>Stroke\<close>, \<^verbatim>\<open>FillPolygon\<close>, \<^verbatim>\<open>StrokeLine2\<close>.
\<close>

datatype ('c, 'l) Cmd =
    SetColor 'c
  | Fill Path
  | SetLineStyle 'l
  | Stroke Path
  | FillPolygon 'c "Point list"
  | StrokeLine2 'l real real real real

text \<open>
  \<^verbatim>\<open>draw.Canvas\<close>, as far as the plotter reads it: the corners \<^verbatim>\<open>Min\<close> and \<^verbatim>\<open>Max\<close> of its
  rectangle, and the results of its methods \<^verbatim>\<open>ClipLinesXY\<close>, \<^verbatim>\<open>ClipPolygonY\<close> and
  \<^verbatim>\<open>Center\<close>, which are defined outside the embedded files and therefore are fields here.
\<close>

record Canvas =
  Min_c :: Point
  Max_c :: Point
  ClipLinesXY :: "Point list \<Rightarrow> Point list list"
  ClipPolygonY :: "Point list \<Rightarrow> Point list"
  Center :: Point

text \<open>
  \<^verbatim>\<open>plot.Plot\<close>, as far as the plotter reads it: \<^verbatim>\<open>plt.Y.Min\<close>, and the pair of
  transforms that \<^verbatim>\<open>plt.Transforms(&c)\<close> returns for a canvas.
\<close>

record plot_Plot =
  Y_Min :: real
  Transforms :: "Canvas \<Rightarrow> (real \<Rightarrow> real) \<times> (real \<Rightarrow> real)"

section \<open>Slices\<close>

text \<open>\<^verbatim>\<open>xs[i]\<close> panics unless \<open>0 \<le> i < len(xs)\<close>.\<close>

definition index :: "'a list \<Rightarrow> int \<Rightarrow> 'a option" where
  "index xs i = (if 0 \<le> i \<and> i < int (length xs) then Some (xs ! nat i) else None)"

text \<open>\<^verbatim>\<open>xs[k:]\<close> panics unless \<open>0 \<le> k \<le> len(xs)\<close>.\<close>

definition slice_from :: "'a list \<Rightarrow> int \<Rightarrow> 'a list option" where
  "slice_from xs k = (if 0 \<le> k \<and> k \<le> int (length xs) then Some (drop (nat k) xs) else None)"

section \<open>The float64 midpoint\<close>

text \<open>
  Go evaluates \<^verbatim>\<open>(prev.X + pt.X) / 2\<close> in float64 (IEEE 754 binary64): the sum is rounded
  to the nearest float64, ties to the even significand, and so is the quotient.
  \<open>pow2 k\<close> is \<open>2\<close> to the power \<open>k\<close>. \<open>round_even\<close> rounds to the nearest integer, ties
  to even. \<open>round64\<close> rounds a real to the nearest float64: the spacing of the float64
  numbers around \<open>x\<close> is \<open>2\<close> to the power \<open>e - 52\<close>, where \<open>e\<close> is the binary exponent
  of \<open>x\<close>, and at least \<open>-1022\<close> (below that the numbers are subnormal and equally
  spaced). A result of magnitude \<open>2 ^ 1024\<close> or more is an infinity in float64, and
  outside the model.
\<close>

definition pow2 :: "int \<Rightarrow> real" where
  "pow2 k = (if 0 \<le> k then 2 ^ nat k else 1 / 2 ^ nat (- k))"

definition round_even :: "real \<Rightarrow> int" where
  "round_even q =
     (let n = \<lfloor>q\<rfloor>; r = q - of_int n
      in if r < 1 / 2 then n else if 1 / 2 < r then n + 1 else if even n then n else n + 1)"

definition round64 :: "real \<Rightarrow> real" where
  "round64 x =
     (if x = 0 then 0
      else (let e = max \<lfloor>log 2 \<bar>x\<bar>\<rfloor> (- 1022); u = pow2 (e - 52)
            in of_int (round_even (x / u)) * u))"

text \<open>The float64 value of \<^verbatim>\<open>(a + b) / 2\<close>.\<close>

definition f64_mid :: "real \<Rightarrow> real \<Rightarrow> real" where
  "f64_mid a b = round64 (round64 (a + b) / 2)"

section \<open>Plot: the fill polygon\<close>

text \<open>
  One iteration of \<^verbatim>\<open>for i, pt := range ps[1:]\<close> in the fill block: the \<^verbatim>\<open>switch\<close> on
  the step style has no default case. \<open>n\<close> is \<^verbatim>\<open>len(ps)\<close>.
\<close>

definition fill_step :: "StepKind \<Rightarrow> int \<Rightarrow> int \<Rightarrow> Point \<Rightarrow> Point \<Rightarrow> Path \<Rightarrow> Path" where
  "fill_step k n i prev pt pa =
     (if k = PreStep then
        pa @ [Line \<lparr>Point.X = Point.X prev, Point.Y = Point.Y pt\<rparr>, Line pt]
      else if k = MidStep then
        pa @ [Line \<lparr>Point.X = f64_mid (Point.X prev) (Point.X pt), Point.Y = Point.Y prev\<rparr>,
              Line \<lparr>Point.X = f64_mid (Point.X prev) (Point.X pt), Point.Y = Point.Y pt\<rparr>,
              Line pt]
      else if k = PostStep then
        (let pa = pa @ [Line \<lparr>Point.X = Point.X pt, Point.Y = Point.Y prev\<rparr>]
         in if i \<noteq> n - 2 then pa @ [Line pt] else pa)
      else pa)"

text \<open>The loop itself: \<open>i\<close> counts the iterations, \<open>prev\<close> is updated to \<open>pt\<close>.\<close>

fun fill_loop :: "StepKind \<Rightarrow> int \<Rightarrow> int \<Rightarrow> Point \<Rightarrow> Point list \<Rightarrow> Path \<Rightarrow> Path" where
  "fill_loop k n i prev [] pa = pa"
| "fill_loop k n i prev (pt # rest) pa =
     fill_loop k n (i + 1) pt rest (fill_step k n i prev pt pa)"

text \<open>
  The path \<^verbatim>\<open>pa\<close> that the fill block of \<^verbatim>\<open>Plot\<close> builds from the device-space points
  \<open>ps\<close>, the step style and the baseline \<open>minY\<close> (the specification's BuildFillPolygon).
  \<open>m\<close> is \<^verbatim>\<open>len(pts.XYs)\<close>, which indexes the last point.
\<close>

definition Plot_fill :: "StepKind \<Rightarrow> Point list \<Rightarrow> int \<Rightarrow> real \<Rightarrow> Path option" where
  "Plot_fill k ps m minY = do {
     p0 \<leftarrow> index ps 0;
     let pa = [Move \<lparr>Point.X = Point.X p0, Point.Y = minY\<rparr>];
     let prev = p0;
     let pa = (if k \<noteq> PreStep then pa @ [Line prev] else pa);
     rest \<leftarrow> slice_from ps 1;
     let pa = fill_loop k (int (length ps)) 0 prev rest pa;
     pl \<leftarrow> index ps (m - 1);
     let pa = pa @ [Line \<lparr>Point.X = Point.X pl, Point.Y = minY\<rparr>];
     Some (pa @ [Close])
   }"

section \<open>Plot: the stroke\<close>

text \<open>One iteration of \<^verbatim>\<open>for _, pt := range l[1:]\<close> in the stroke block.\<close>

definition stroke_step :: "StepKind \<Rightarrow> Point \<Rightarrow> Point \<Rightarrow> Path \<Rightarrow> Path" where
  "stroke_step k prev pt p =
     (let p =
        (if k = PreStep then
           p @ [Line \<lparr>Point.X = Point.X prev, Point.Y = Point.Y pt\<rparr>]
         else if k = MidStep then
           p @ [Line \<lparr>Point.X = f64_mid (Point.X prev) (Point.X pt), Point.Y = Point.Y prev\<rparr>,
                Line \<lparr>Point.X = f64_mid (Point.X prev) (Point.X pt), Point.Y = Point.Y pt\<rparr>]
         else if k = PostStep then
           p @ [Line \<lparr>Point.X = Point.X pt, Point.Y = Point.Y prev\<rparr>]
         else p)
      in p @ [Line pt])"

fun stroke_loop :: "StepKind \<Rightarrow> Point \<Rightarrow> Point list \<Rightarrow> Path \<Rightarrow> Path" where
  "stroke_loop k prev [] p = p"
| "stroke_loop k prev (pt # rest) p = stroke_loop k pt rest (stroke_step k prev pt p)"

text \<open>
  The body of \<^verbatim>\<open>for _, l := range lines\<close>: an empty line is skipped by \<^verbatim>\<open>continue\<close>,
  any other line is stroked.
\<close>

definition Plot_stroke :: "StepKind \<Rightarrow> Point list \<Rightarrow> ('c, 'l) Cmd list option" where
  "Plot_stroke k l =
     (if length l = 0 then Some []
      else do {
        prev \<leftarrow> index l 0;
        let p = [Move prev];
        rest \<leftarrow> slice_from l 1;
        let p = stroke_loop k prev rest p;
        Some [Stroke p]
      })"

fun Plot_strokes :: "StepKind \<Rightarrow> Point list list \<Rightarrow> ('c, 'l) Cmd list option" where
  "Plot_strokes k [] = Some []"
| "Plot_strokes k (l # ls) = do {
     out \<leftarrow> Plot_stroke k l;
     outs \<leftarrow> Plot_strokes k ls;
     Some (out @ outs)
   }"

section \<open>Plot\<close>

text \<open>
  The slice \<^verbatim>\<open>ps\<close> that \<^verbatim>\<open>Plot\<close> fills first: the data points, transformed to device
  space by \<^verbatim>\<open>trX\<close> and \<^verbatim>\<open>trY\<close>.
\<close>

definition device :: "(real \<Rightarrow> real) \<Rightarrow> (real \<Rightarrow> real) \<Rightarrow> XY list \<Rightarrow> Point list" where
  "device trX trY xys = map (\<lambda>p. \<lparr>Point.X = trX (XY.X p), Point.Y = trY (XY.Y p)\<rparr>) xys"

text \<open>
  \<^verbatim>\<open>func (pts *Step) Plot(c draw.Canvas, plt *plot.Plot)\<close>: the result is the list of
  canvas calls made, or \<open>None\<close> for a panic.
\<close>

definition Plot :: "('c, 'l) Step \<Rightarrow> Canvas \<Rightarrow> plot_Plot \<Rightarrow> ('c, 'l) Cmd list option" where
  "Plot pts c plt =
     (let (trX, trY) = Transforms plt c;
          ps = device trX trY (XYs pts)
      in do {
        filled \<leftarrow>
          (case FillColor pts of
             Some col \<Rightarrow>
               if length ps > 0 then do {
                 let minY = trY (Y_Min plt);
                 pa \<leftarrow> Plot_fill (StepStyle pts) ps (int (length (XYs pts))) minY;
                 Some [SetColor col, Fill pa]
               } else Some []
           | None \<Rightarrow> Some []);
        stroked \<leftarrow>
          (case LineStyle pts of
             Some sty \<Rightarrow>
               (let lines = ClipLinesXY c ps
                in if length lines = 0 then Some []
                   else do {
                     outs \<leftarrow> Plot_strokes (StepStyle pts) lines;
                     Some (SetLineStyle sty # outs)
                   })
           | None \<Rightarrow> Some []);
        Some (filled @ stroked)
      })"

section \<open>DataRange\<close>

type_synonym Range4 = "real \<times> real \<times> real \<times> real"

text \<open>
  Modelled from the spec: \<^verbatim>\<open>XYRange\<close> is defined in \<^verbatim>\<open>plotter.go\<close>, outside the
  embedded files. The specification says that it "computes the tight bounding box of
  points in data space" as \<open>(xmin, xmax, ymin, ymax)\<close>, and that for zero points the
  range is the degenerate case of the underlying primitive; that degenerate range is the
  parameter \<open>d\<close>.
\<close>

fun XYRange :: "Range4 \<Rightarrow> XY list \<Rightarrow> Range4" where
  "XYRange d [] = d"
| "XYRange d (p # ps) =
     (fold min (map XY.X ps) (XY.X p), fold max (map XY.X ps) (XY.X p),
      fold min (map XY.Y ps) (XY.Y p), fold max (map XY.Y ps) (XY.Y p))"

text \<open>
  \<^verbatim>\<open>func (pts *Step) DataRange()\<close>, with the function it calls for the bounding box as
  the parameter \<open>xyrange\<close>. \<^verbatim>\<open>math.Min\<close> and \<^verbatim>\<open>math.Max\<close> are \<open>min\<close> and \<open>max\<close> on the reals.
\<close>

definition DataRange :: "(XY list \<Rightarrow> Range4) \<Rightarrow> ('c, 'l) Step \<Rightarrow> Range4" where
  "DataRange xyrange pts =
     (if FillColor pts \<noteq> None then
        (case xyrange (XYs pts) of
           (xmin, xmax, ymin, ymax) \<Rightarrow> (xmin, xmax, min ymin 0, max ymax 0))
      else xyrange (XYs pts))"

section \<open>Thumbnail\<close>

text \<open>
  \<^verbatim>\<open>func (pts *Step) Thumbnail(c *draw.Canvas)\<close>: the list of canvas calls made.
  \<^verbatim>\<open>topY\<close> is initialised to 0 and assigned in both branches of the \<^verbatim>\<open>if\<close>.
\<close>

definition Thumbnail :: "('c, 'l) Step \<Rightarrow> Canvas \<Rightarrow> ('c, 'l) Cmd list" where
  "Thumbnail pts c =
     (case FillColor pts of
        Some col \<Rightarrow>
          (let topY = (if LineStyle pts = None then Point.Y (Max_c c)
                       else (Point.Y (Min_c c) + Point.Y (Max_c c)) / 2);
               points = [\<lparr>Point.X = Point.X (Min_c c), Point.Y = Point.Y (Min_c c)\<rparr>,
                         \<lparr>Point.X = Point.X (Min_c c), Point.Y = topY\<rparr>,
                         \<lparr>Point.X = Point.X (Max_c c), Point.Y = topY\<rparr>,
                         \<lparr>Point.X = Point.X (Max_c c), Point.Y = Point.Y (Min_c c)\<rparr>];
               poly = ClipPolygonY c points
           in [FillPolygon col poly])
      | None \<Rightarrow> [])
     @
     (case LineStyle pts of
        Some sty \<Rightarrow>
          (let y = Point.Y (Center c)
           in [StrokeLine2 sty (Point.X (Min_c c)) y (Point.X (Max_c c)) y])
      | None \<Rightarrow> [])"

section \<open>NewStep\<close>

text \<open>
  \<^verbatim>\<open>func NewStep(xys XYer) (*Step, error)\<close>. \<^verbatim>\<open>CopyXYs\<close> and \<^verbatim>\<open>DefaultLineStyle\<close> are
  defined in \<^verbatim>\<open>plotter.go\<close>, outside the embedded files, and are parameters: \<open>copyXYs\<close>
  returns \<open>Inl err\<close> or \<open>Inr data\<close>. The fields that the composite literal does not set
  have their zero values: \<^verbatim>\<open>StepStyle\<close> is 0 and \<^verbatim>\<open>FillColor\<close> is nil.
\<close>

definition NewStep :: "('x \<Rightarrow> 'e + XY list) \<Rightarrow> 'l \<Rightarrow> 'x \<Rightarrow> 'e + ('c, 'l) Step" where
  "NewStep copyXYs defaultLineStyle xys =
     (case copyXYs xys of
        Inl err \<Rightarrow> Inl err
      | Inr data \<Rightarrow>
          Inr \<lparr>XYs = data, StepStyle = 0, LineStyle = Some defaultLineStyle, FillColor = None\<rparr>)"

section \<open>The earlier version of the plotter\<close>

text \<open>
  \<^verbatim>\<open>src/plotter/step.go\<close>: \<^verbatim>\<open>type StepType int\<close> with \<^verbatim>\<open>StepTypePre = iota\<close>,
  \<^verbatim>\<open>StepTypeMid\<close>, \<^verbatim>\<open>StepTypePost\<close>, and the struct with the fields \<^verbatim>\<open>StepType\<close> and
  \<^verbatim>\<open>ShadeColor\<close>. Its functions are embedded for themselves, with the suffix \<open>_old\<close>.
\<close>

type_synonym StepType = int

definition StepTypePre :: StepType where
  "StepTypePre = 0"

definition StepTypeMid :: StepType where
  "StepTypeMid = 1"

definition StepTypePost :: StepType where
  "StepTypePost = 2"

record ('c, 'l) Step_old =
  XYs :: "XY list"
  StepType :: StepType
  LineStyle :: "'l option"
  ShadeColor :: "'c option"

definition fill_step_old :: "StepType \<Rightarrow> int \<Rightarrow> int \<Rightarrow> Point \<Rightarrow> Point \<Rightarrow> Path \<Rightarrow> Path" where
  "fill_step_old k n i prev pt pa =
     (if k = StepTypePre then
        pa @ [Line \<lparr>Point.X = Point.X prev, Point.Y = Point.Y pt\<rparr>, Line pt]
      else if k = StepTypeMid then
        pa @ [Line \<lparr>Point.X = f64_mid (Point.X prev) (Point.X pt), Point.Y = Point.Y prev\<rparr>,
              Line \<lparr>Point.X = f64_mid (Point.X prev) (Point.X pt), Point.Y = Point.Y pt\<rparr>,
              Line pt]
      else if k = StepTypePost then
        (let pa = pa @ [Line \<lparr>Point.X = Point.X pt, Point.Y = Point.Y prev\<rparr>]
         in if i \<noteq> n - 2 then pa @ [Line pt] else pa)
      else pa)"

fun fill_loop_old :: "StepType \<Rightarrow> int \<Rightarrow> int \<Rightarrow> Point \<Rightarrow> Point list \<Rightarrow> Path \<Rightarrow> Path" where
  "fill_loop_old k n i prev [] pa = pa"
| "fill_loop_old k n i prev (pt # rest) pa =
     fill_loop_old k n (i + 1) pt rest (fill_step_old k n i prev pt pa)"

definition Plot_fill_old :: "StepType \<Rightarrow> Point list \<Rightarrow> int \<Rightarrow> real \<Rightarrow> Path option" where
  "Plot_fill_old k ps m minY = do {
     p0 \<leftarrow> index ps 0;
     let pa = [Move \<lparr>Point.X = Point.X p0, Point.Y = minY\<rparr>];
     let prev = p0;
     let pa = (if k \<noteq> StepTypePre then pa @ [Line prev] else pa);
     rest \<leftarrow> slice_from ps 1;
     let pa = fill_loop_old k (int (length ps)) 0 prev rest pa;
     pl \<leftarrow> index ps (m - 1);
     let pa = pa @ [Line \<lparr>Point.X = Point.X pl, Point.Y = minY\<rparr>];
     Some (pa @ [Close])
   }"

definition stroke_step_old :: "StepType \<Rightarrow> Point \<Rightarrow> Point \<Rightarrow> Path \<Rightarrow> Path" where
  "stroke_step_old k prev pt p =
     (let p =
        (if k = StepTypePre then
           p @ [Line \<lparr>Point.X = Point.X prev, Point.Y = Point.Y pt\<rparr>]
         else if k = StepTypeMid then
           p @ [Line \<lparr>Point.X = f64_mid (Point.X prev) (Point.X pt), Point.Y = Point.Y prev\<rparr>,
                Line \<lparr>Point.X = f64_mid (Point.X prev) (Point.X pt), Point.Y = Point.Y pt\<rparr>]
         else if k = StepTypePost then
           p @ [Line \<lparr>Point.X = Point.X pt, Point.Y = Point.Y prev\<rparr>]
         else p)
      in p @ [Line pt])"

fun stroke_loop_old :: "StepType \<Rightarrow> Point \<Rightarrow> Point list \<Rightarrow> Path \<Rightarrow> Path" where
  "stroke_loop_old k prev [] p = p"
| "stroke_loop_old k prev (pt # rest) p =
     stroke_loop_old k pt rest (stroke_step_old k prev pt p)"

definition Plot_stroke_old :: "StepType \<Rightarrow> Point list \<Rightarrow> ('c, 'l) Cmd list option" where
  "Plot_stroke_old k l =
     (if length l = 0 then Some []
      else do {
        prev \<leftarrow> index l 0;
        let p = [Move prev];
        rest \<leftarrow> slice_from l 1;
        let p = stroke_loop_old k prev rest p;
        Some [Stroke p]
      })"

fun Plot_strokes_old :: "StepType \<Rightarrow> Point list list \<Rightarrow> ('c, 'l) Cmd list option" where
  "Plot_strokes_old k [] = Some []"
| "Plot_strokes_old k (l # ls) = do {
     out \<leftarrow> Plot_stroke_old k l;
     outs \<leftarrow> Plot_strokes_old k ls;
     Some (out @ outs)
   }"

definition Plot_old :: "('c, 'l) Step_old \<Rightarrow> Canvas \<Rightarrow> plot_Plot \<Rightarrow> ('c, 'l) Cmd list option" where
  "Plot_old pts c plt =
     (let (trX, trY) = Transforms plt c;
          ps = device trX trY (Step_old.XYs pts)
      in do {
        filled \<leftarrow>
          (case ShadeColor pts of
             Some col \<Rightarrow>
               if length ps > 0 then do {
                 let minY = trY (Y_Min plt);
                 pa \<leftarrow> Plot_fill_old (StepType pts) ps (int (length (Step_old.XYs pts))) minY;
                 Some [SetColor col, Fill pa]
               } else Some []
           | None \<Rightarrow> Some []);
        stroked \<leftarrow>
          (case Step_old.LineStyle pts of
             Some sty \<Rightarrow>
               (let lines = ClipLinesXY c ps
                in if length lines = 0 then Some []
                   else do {
                     outs \<leftarrow> Plot_strokes_old (StepType pts) lines;
                     Some (SetLineStyle sty # outs)
                   })
           | None \<Rightarrow> Some []);
        Some (filled @ stroked)
      })"

definition DataRange_old :: "(XY list \<Rightarrow> Range4) \<Rightarrow> ('c, 'l) Step_old \<Rightarrow> Range4" where
  "DataRange_old xyrange pts =
     (if ShadeColor pts \<noteq> None then
        (case xyrange (Step_old.XYs pts) of
           (xmin, xmax, ymin, ymax) \<Rightarrow> (xmin, xmax, min ymin 0, max ymax 0))
      else xyrange (Step_old.XYs pts))"

text \<open>
  The earlier \<^verbatim>\<open>Thumbnail\<close>: the rectangle reaches \<^verbatim>\<open>c.Max.Y\<close>, and the line is drawn in
  the \<^verbatim>\<open>else if\<close> branch, that is, only when there is no shade colour.
\<close>

definition Thumbnail_old :: "('c, 'l) Step_old \<Rightarrow> Canvas \<Rightarrow> ('c, 'l) Cmd list" where
  "Thumbnail_old pts c =
     (case ShadeColor pts of
        Some col \<Rightarrow>
          (let points = [\<lparr>Point.X = Point.X (Min_c c), Point.Y = Point.Y (Min_c c)\<rparr>,
                         \<lparr>Point.X = Point.X (Min_c c), Point.Y = Point.Y (Max_c c)\<rparr>,
                         \<lparr>Point.X = Point.X (Max_c c), Point.Y = Point.Y (Max_c c)\<rparr>,
                         \<lparr>Point.X = Point.X (Max_c c), Point.Y = Point.Y (Min_c c)\<rparr>];
               poly = ClipPolygonY c points
           in [FillPolygon col poly])
      | None \<Rightarrow>
          (case Step_old.LineStyle pts of
             Some sty \<Rightarrow>
               (let y = Point.Y (Center c)
                in [StrokeLine2 sty (Point.X (Min_c c)) y (Point.X (Max_c c)) y])
           | None \<Rightarrow> []))"

text \<open>
  The renaming between the two versions: the same configuration, with \<^verbatim>\<open>StepType\<close> read
  as \<^verbatim>\<open>StepStyle\<close> and \<^verbatim>\<open>ShadeColor\<close> as \<^verbatim>\<open>FillColor\<close>.
\<close>

definition renamed :: "('c, 'l) Step_old \<Rightarrow> ('c, 'l) Step" where
  "renamed pts =
     \<lparr>Step.XYs = Step_old.XYs pts, StepStyle = StepType pts,
      Step.LineStyle = Step_old.LineStyle pts, FillColor = ShadeColor pts\<rparr>"

section \<open>Notions of the specification\<close>

text \<open>
  What the pair of the points \<open>i\<close> and \<open>i + 1\<close> contributes under Post, in the words of
  the specification: the horizontal line to \<open>(pt.x, prev.y)\<close>, then the vertical line to
  \<open>pt\<close> unless \<open>pt\<close> is the last point.
\<close>

definition post_pair :: "Point list \<Rightarrow> nat \<Rightarrow> Path" where
  "post_pair ps i =
     Line \<lparr>Point.X = Point.X (ps ! (i + 1)), Point.Y = Point.Y (ps ! i)\<rparr>
     # (if i + 2 = length ps then [] else [Line (ps ! (i + 1))])"

text \<open>The vertices that a path visits, in order.\<close>

fun vertices :: "Path \<Rightarrow> Point list" where
  "vertices [] = []"
| "vertices (Move p # r) = p # vertices r"
| "vertices (Line p # r) = p # vertices r"
| "vertices (Close # r) = vertices r"

text \<open>The paths that a list of canvas calls strokes, in order.\<close>

fun strokes :: "('c, 'l) Cmd list \<Rightarrow> Path list" where
  "strokes [] = []"
| "strokes (Stroke p # r) = p # strokes r"
| "strokes (_ # r) = strokes r"

text \<open>
  A list of canvas calls with the polygon of every \<open>FillPolygon\<close> erased: what is left
  of a thumbnail when the geometry of its fill rectangle is disregarded.
\<close>

fun without_polygons :: "('c, 'l) Cmd list \<Rightarrow> ('c, 'l) Cmd list" where
  "without_polygons [] = []"
| "without_polygons (FillPolygon col poly # r) = FillPolygon col [] # without_polygons r"
| "without_polygons (x # r) = x # without_polygons r"

section \<open>Example inputs\<close>

text \<open>
  A canvas on the rectangle from \<open>(0,0)\<close> to \<open>(10,10)\<close> whose clipping returns every
  line and polygon whole (an all-inclusive clip rectangle; a line of fewer than two
  points has no visible part and gives no sub-polyline), and a plot whose transforms are
  the identity, with a given axis minimum.
\<close>

definition clip_whole :: "Point list \<Rightarrow> Point list list" where
  "clip_whole ps = (if 1 < length ps then [ps] else [])"

definition whole_canvas :: Canvas where
  "whole_canvas =
     \<lparr>Min_c = \<lparr>Point.X = 0, Point.Y = 0\<rparr>, Max_c = \<lparr>Point.X = 10, Point.Y = 10\<rparr>,
      ClipLinesXY = clip_whole, ClipPolygonY = (\<lambda>ps. ps),
      Center = \<lparr>Point.X = 5, Point.Y = 5\<rparr>\<rparr>"

definition identity_plot :: "real \<Rightarrow> plot_Plot" where
  "identity_plot ymin = \<lparr>Y_Min = ymin, Transforms = (\<lambda>c. (id, id))\<rparr>"

text \<open>The three points of the scenarios, in device space and as the data of a step.\<close>

definition example_points :: "Point list" where
  "example_points =
     [\<lparr>Point.X = 0, Point.Y = 1\<rparr>, \<lparr>Point.X = 1, Point.Y = 3\<rparr>, \<lparr>Point.X = 2, Point.Y = 2\<rparr>]"

definition example_step :: "StepKind \<Rightarrow> (nat, nat) Step" where
  "example_step k =
     \<lparr>Step.XYs = [\<lparr>XY.X = 0, XY.Y = 1\<rparr>, \<lparr>XY.X = 1, XY.Y = 3\<rparr>, \<lparr>XY.X = 2, XY.Y = 2\<rparr>],
      StepStyle = k, Step.LineStyle = Some 1, FillColor = Some 2\<rparr>"

text \<open>
  A step with negative data only, filled and without a line; a clip that returns no line
  at all; and the three points as a step of the earlier version, with shade and line.
\<close>

definition negative_step :: "(nat, nat) Step" where
  "negative_step =
     \<lparr>Step.XYs = [\<lparr>XY.X = 0, XY.Y = - 1\<rparr>, \<lparr>XY.X = 1, XY.Y = - 3\<rparr>],
      StepStyle = PostStep, Step.LineStyle = None, FillColor = Some 2\<rparr>"

definition clip_nothing :: "Point list \<Rightarrow> Point list list" where
  "clip_nothing ps = []"

text \<open>
  A clip that returns the first point alone, as a sub-polyline of length 1; and a step of
  the style Mid over the float64 numbers nearest to \<open>0.1\<close> and \<open>0.2\<close>, which are
  \<open>3602879701896397 / 2 ^ 55\<close> and \<open>3602879701896397 / 2 ^ 54\<close>.
\<close>

definition clip_first :: "Point list \<Rightarrow> Point list list" where
  "clip_first ps = [take 1 ps]"

definition tenths_step :: "(nat, nat) Step" where
  "tenths_step =
     \<lparr>Step.XYs = [\<lparr>XY.X = 3602879701896397 / 2 ^ 55, XY.Y = 0\<rparr>,
                  \<lparr>XY.X = 3602879701896397 / 2 ^ 54, XY.Y = 1\<rparr>],
      StepStyle = MidStep, Step.LineStyle = Some 1, FillColor = None\<rparr>"

definition example_step_old :: "(nat, nat) Step_old" where
  "example_step_old =
     \<lparr>Step_old.XYs = [\<lparr>XY.X = 0, XY.Y = 1\<rparr>, \<lparr>XY.X = 1, XY.Y = 3\<rparr>, \<lparr>XY.X = 2, XY.Y = 2\<rparr>],
      StepType = StepTypePost, Step_old.LineStyle = Some 1, ShadeColor = Some 2\<rparr>"

section \<open>Slices and iteration: basic facts\<close>

lemma index_0: "index (x # xs) 0 = Some x"
  by (simp add: index_def)

lemma slice_from_1: "slice_from (x # xs) 1 = Some xs"
  by (simp add: slice_from_def)

lemma index_last: "xs \<noteq> [] \<Longrightarrow> index xs (int (length xs) - 1) = Some (last xs)"
  by (cases xs rule: rev_cases) (simp_all add: index_def nth_append)

lemma fill_step_acc: "fill_step k n i prev pt pa = pa @ fill_step k n i prev pt []"
  by (simp add: fill_step_def Let_def)

text \<open>The fill loop only appends to the path it is given.\<close>

lemma fill_loop_acc: "fill_loop k n i prev pts pa = pa @ fill_loop k n i prev pts []"
proof (induction pts arbitrary: i prev pa)
  case Nil
  show ?case by simp
next
  case (Cons pt rest)
  have "fill_loop k n i prev (pt # rest) pa
        = fill_loop k n (i + 1) pt rest (pa @ fill_step k n i prev pt [])"
    using fill_step_acc [of k n i prev pt pa] by simp
  also have "\<dots> = (pa @ fill_step k n i prev pt []) @ fill_loop k n (i + 1) pt rest []"
    by (rule Cons.IH)
  also have "\<dots> = pa @ fill_loop k n (i + 1) pt rest (fill_step k n i prev pt [])"
    using Cons.IH [of "i + 1" pt "fill_step k n i prev pt []"] by simp
  finally show ?case by simp
qed

text \<open>
  On a non-empty slice the fill block does not panic, and its path is the opening
  \<open>Move\<close>, the first point unless the style is \<open>PreStep\<close>, what the loop appends, the
  closing \<open>Line\<close> to the baseline and \<open>Close\<close>.
\<close>

lemma Plot_fill_Cons:
  "Plot_fill k (p0 # rest) (int (length (p0 # rest))) minY =
     Some (Move \<lparr>Point.X = Point.X p0, Point.Y = minY\<rparr>
           # (if k \<noteq> PreStep then [Line p0] else [])
           @ fill_loop k (int (length (p0 # rest))) 0 p0 rest []
           @ [Line \<lparr>Point.X = Point.X (last (p0 # rest)), Point.Y = minY\<rparr>, Close])"
proof -
  have l: "index (p0 # rest) (int (length (p0 # rest)) - 1) = Some (last (p0 # rest))"
    by (rule index_last) simp
  have a: "fill_loop k' n 0 p0 rest [c1] = [c1] @ fill_loop k' n 0 p0 rest []" for k' n c1
    by (rule fill_loop_acc)
  have b: "fill_loop k' n 0 p0 rest [c1, c2] = [c1, c2] @ fill_loop k' n 0 p0 rest []"
    for k' n c1 c2
    by (rule fill_loop_acc)
  show ?thesis
    unfolding Plot_fill_def index_0 slice_from_1 l
    by (simp add: a b)
qed

section \<open>The fill polygon of the Pre scenario\<close>

text \<open>
  C1, as the specification states it: for the points \<open>(0,1), (1,3), (2,2)\<close>, the style
  Pre and the baseline 0 the fill polygon would be
  \<open>(0,0), (0,1), (0,3), (1,3), (1,2), (2,2), (2,0)\<close>, closed. The code does not produce
  this path: for \<open>PreStep\<close> the guard \<^verbatim>\<open>if pts.StepStyle != PreStep\<close> leaves out the line
  to the first point \<open>(0,1)\<close>.
\<close>

theorem C1_pre_fill_scenario_counterexample:
  "Plot_fill PreStep
     [\<lparr>Point.X = 0, Point.Y = 1\<rparr>, \<lparr>Point.X = 1, Point.Y = 3\<rparr>, \<lparr>Point.X = 2, Point.Y = 2\<rparr>] 3 0
   \<noteq> Some [Move \<lparr>Point.X = 0, Point.Y = 0\<rparr>, Line \<lparr>Point.X = 0, Point.Y = 1\<rparr>,
            Line \<lparr>Point.X = 0, Point.Y = 3\<rparr>, Line \<lparr>Point.X = 1, Point.Y = 3\<rparr>,
            Line \<lparr>Point.X = 1, Point.Y = 2\<rparr>, Line \<lparr>Point.X = 2, Point.Y = 2\<rparr>,
            Line \<lparr>Point.X = 2, Point.Y = 0\<rparr>, Close]"
  by (simp add: Plot_fill_def index_def slice_from_def fill_step_def PreStep_def)

text \<open>
  C1, amended: for the points \<open>(0,1), (1,3), (2,2)\<close>, the style Pre and the baseline 0
  the fill polygon is exactly \<open>(0,0), (0,3), (1,3), (1,2), (2,2), (2,0)\<close>, closed: the
  path goes from the baseline start straight to \<open>(0,3)\<close>, and the vertex \<open>(0,1)\<close>, which
  lies on that vertical edge, is not a vertex of the path.
\<close>

theorem C1_pre_fill_scenario:
  "Plot_fill PreStep
     [\<lparr>Point.X = 0, Point.Y = 1\<rparr>, \<lparr>Point.X = 1, Point.Y = 3\<rparr>, \<lparr>Point.X = 2, Point.Y = 2\<rparr>] 3 0
   = Some [Move \<lparr>Point.X = 0, Point.Y = 0\<rparr>,
           Line \<lparr>Point.X = 0, Point.Y = 3\<rparr>, Line \<lparr>Point.X = 1, Point.Y = 3\<rparr>,
           Line \<lparr>Point.X = 1, Point.Y = 2\<rparr>, Line \<lparr>Point.X = 2, Point.Y = 2\<rparr>,
           Line \<lparr>Point.X = 2, Point.Y = 0\<rparr>, Close]"
  by (simp add: Plot_fill_def index_def slice_from_def fill_step_def PreStep_def)

section \<open>The fill polygon of the Post style\<close>

lemma fill_step_post:
  "fill_step PostStep (int (length ps)) (int i) (ps ! i) (ps ! (i + 1)) [] = post_pair ps i"
proof -
  have "(int i \<noteq> int (length ps) - 2) = (i + 2 \<noteq> length ps)"
    by linarith
  then show ?thesis
    by (simp add: fill_step_def post_pair_def PreStep_def MidStep_def PostStep_def Let_def)
qed

text \<open>
  The loop, entered at iteration \<open>i\<close> with the points after \<open>ps ! i\<close> left to visit,
  appends the contributions of the pairs \<open>i, \<dots>, length ps - 2\<close>.
\<close>

lemma fill_loop_post:
  "rest = drop (i + 1) ps \<Longrightarrow> i < length ps \<Longrightarrow> prev = ps ! i \<Longrightarrow>
   fill_loop PostStep (int (length ps)) (int i) prev rest []
     = concat (map (post_pair ps) [i..<length ps - 1])"
proof (induction rest arbitrary: i prev)
  case Nil
  then have "length ps \<le> i + 1" by simp
  then show ?case by simp
next
  case (Cons pt rest)
  from Cons.prems(1) have lt: "i + 1 < length ps"
    by (metis drop_eq_Nil2 list.distinct(1) not_le)
  have pt: "pt = ps ! (i + 1)"
    using Cons.prems(1) lt by (metis Cons_nth_drop_Suc list.inject Suc_eq_plus1)
  have rest: "rest = drop (i + 1 + 1) ps"
    using Cons.prems(1) lt by (metis Cons_nth_drop_Suc list.inject Suc_eq_plus1)
  have "fill_loop PostStep (int (length ps)) (int (i + 1)) pt rest []
              = concat (map (post_pair ps) [i + 1..<length ps - 1])"
    using rest lt pt by (rule Cons.IH)
  then have ih: "fill_loop PostStep (int (length ps)) (int i + 1) pt rest []
              = concat (map (post_pair ps) [i + 1..<length ps - 1])"
    by (simp add: add.commute)
  have upt: "[i..<length ps - 1] = i # [i + 1..<length ps - 1]"
    using lt by (simp add: upt_conv_Cons)
  have st: "fill_step PostStep (int (length ps)) (int i) prev pt [] = post_pair ps i"
    unfolding Cons.prems(3) pt by (rule fill_step_post)
  have "fill_loop PostStep (int (length ps)) (int i) prev (pt # rest) []
          = fill_loop PostStep (int (length ps)) (int i + 1) pt rest (post_pair ps i)"
    unfolding fill_loop.simps st ..
  also have "\<dots> = post_pair ps i @ fill_loop PostStep (int (length ps)) (int i + 1) pt rest []"
    by (rule fill_loop_acc)
  also have "\<dots> = concat (map (post_pair ps) [i..<length ps - 1])"
    unfolding ih upt by simp
  finally show ?case .
qed

lemma Plot_fill_post:
  assumes "ps \<noteq> []"
  shows "Plot_fill PostStep ps (int (length ps)) minY =
     Some (Move \<lparr>Point.X = Point.X (ps ! 0), Point.Y = minY\<rparr> # Line (ps ! 0)
           # concat (map (post_pair ps) [0..<length ps - 1])
           @ [Line \<lparr>Point.X = Point.X (last ps), Point.Y = minY\<rparr>, Close])"
proof -
  from assms obtain p0 rest where ps: "ps = p0 # rest"
    by (cases ps) auto
  have "fill_loop PostStep (int (length ps)) (int 0) p0 rest []
          = concat (map (post_pair ps) [0..<length ps - 1])"
    by (rule fill_loop_post) (simp_all add: ps)
  then have loop: "fill_loop PostStep (int (length (p0 # rest))) 0 p0 rest []
          = concat (map (post_pair (p0 # rest)) [0..<length (p0 # rest) - 1])"
    by (simp add: ps)
  show ?thesis
    unfolding ps Plot_fill_Cons loop
    by (simp add: PreStep_def PostStep_def)
qed

text \<open>
  C3: in the fill polygon of the style Post, after the baseline start and the first
  point, every consecutive pair \<open>(prev, pt)\<close> of points contributes the horizontal segment
  to \<open>(pt.x, prev.y)\<close> followed by the vertical segment to \<open>pt\<close>, except the final pair,
  whose \<open>pt\<close> is the last point: there the vertical segment to \<open>pt\<close> is left out, and the
  path goes on to the baseline end and closes.
\<close>

theorem C3_post_fill_final_riser:
  "ps \<noteq> [] \<Longrightarrow>
   Plot_fill PostStep ps (int (length ps)) minY =
     Some (Move \<lparr>Point.X = Point.X (ps ! 0), Point.Y = minY\<rparr> # Line (ps ! 0)
           # concat (map (\<lambda>i. Line \<lparr>Point.X = Point.X (ps ! (i + 1)), Point.Y = Point.Y (ps ! i)\<rparr>
                                # (if i + 2 = length ps then [] else [Line (ps ! (i + 1))]))
                         [0..<length ps - 1])
           @ [Line \<lparr>Point.X = Point.X (last ps), Point.Y = minY\<rparr>, Close])"
  using Plot_fill_post [of ps minY] by (simp add: post_pair_def [abs_def])

theorem C3_post_fill_final_riser_witness:
  "[\<lparr>Point.X = 0, Point.Y = 1\<rparr>, \<lparr>Point.X = 1, Point.Y = 3\<rparr>, \<lparr>Point.X = 2, Point.Y = 2\<rparr>] \<noteq> []
   \<and> Plot_fill PostStep
        [\<lparr>Point.X = 0, Point.Y = 1\<rparr>, \<lparr>Point.X = 1, Point.Y = 3\<rparr>, \<lparr>Point.X = 2, Point.Y = 2\<rparr>] 3 0
      = Some [Move \<lparr>Point.X = 0, Point.Y = 0\<rparr>, Line \<lparr>Point.X = 0, Point.Y = 1\<rparr>,
              Line \<lparr>Point.X = 1, Point.Y = 1\<rparr>, Line \<lparr>Point.X = 1, Point.Y = 3\<rparr>,
              Line \<lparr>Point.X = 2, Point.Y = 3\<rparr>,
              Line \<lparr>Point.X = 2, Point.Y = 0\<rparr>, Close]"
  using C3_post_fill_final_riser
    [of "[\<lparr>Point.X = 0, Point.Y = 1\<rparr>, \<lparr>Point.X = 1, Point.Y = 3\<rparr>, \<lparr>Point.X = 2, Point.Y = 2\<rparr>]" 0]
  by (simp add: upt_rec)

section \<open>The ends of the fill polygon\<close>

text \<open>
  C4: for every non-empty point sequence and every step style (Pre, Mid and Post, and
  any other value too) the fill block returns a path whose first component is the move
  to \<open>(points[0].x, minY)\<close>, whose last component is \<open>Close\<close>, and whose component before
  \<open>Close\<close> is the line to \<open>(points[n-1].x, minY)\<close>.
\<close>

theorem C4_fill_baseline_closed:
  "ps \<noteq> [] \<Longrightarrow>
   \<exists>pa. Plot_fill k ps (int (length ps)) minY = Some pa
      \<and> hd pa = Move \<lparr>Point.X = Point.X (hd ps), Point.Y = minY\<rparr>
      \<and> last (butlast pa) = Line \<lparr>Point.X = Point.X (last ps), Point.Y = minY\<rparr>
      \<and> last pa = Close"
proof -
  assume "ps \<noteq> []"
  then obtain p0 rest where ps: "ps = p0 # rest"
    by (cases ps) auto
  show ?thesis
    unfolding ps Plot_fill_Cons
    by (simp add: butlast_append)
qed

theorem C4_fill_baseline_closed_witness:
  "[\<lparr>Point.X = 5, Point.Y = 5\<rparr>] \<noteq> []
   \<and> (\<exists>pa. Plot_fill MidStep [\<lparr>Point.X = 5, Point.Y = 5\<rparr>] (int (length [\<lparr>Point.X = 5, Point.Y = 5\<rparr>])) 0
              = Some pa
         \<and> hd pa = Move \<lparr>Point.X = Point.X (hd [\<lparr>Point.X = 5, Point.Y = 5\<rparr>]), Point.Y = 0\<rparr>
         \<and> last (butlast pa)
             = Line \<lparr>Point.X = Point.X (last [\<lparr>Point.X = 5, Point.Y = 5\<rparr>]), Point.Y = 0\<rparr>
         \<and> last pa = Close)"
  using C4_fill_baseline_closed [of "[\<lparr>Point.X = 5, Point.Y = 5\<rparr>]" MidStep 0]
  by blast

section \<open>The stroke and the whole of Plot\<close>

lemma vertices_append: "vertices (a @ b) = vertices a @ vertices b"
  by (induction a rule: vertices.induct) simp_all

lemma strokes_append: "strokes (a @ b) = strokes a @ strokes b"
  by (induction a rule: strokes.induct) simp_all

lemma stroke_step_acc: "stroke_step k prev pt p = p @ stroke_step k prev pt []"
  by (simp add: stroke_step_def Let_def)

lemma stroke_loop_acc: "stroke_loop k prev pts p = p @ stroke_loop k prev pts []"
proof (induction pts arbitrary: prev p)
  case Nil
  show ?case by simp
next
  case (Cons pt rest)
  have "stroke_loop k prev (pt # rest) p = stroke_loop k pt rest (p @ stroke_step k prev pt [])"
    using stroke_step_acc [of k prev pt p] by simp
  also have "\<dots> = (p @ stroke_step k prev pt []) @ stroke_loop k pt rest []"
    by (rule Cons.IH)
  also have "\<dots> = p @ stroke_loop k pt rest (stroke_step k prev pt [])"
    using Cons.IH [of pt "stroke_step k prev pt []"] by simp
  finally show ?case by simp
qed

lemma stroke_loop_Cons:
  "stroke_loop k prev (pt # rest) [] = stroke_step k prev pt [] @ stroke_loop k pt rest []"
  using stroke_loop_acc [of k pt rest "stroke_step k prev pt []"] by simp

lemma Plot_stroke_Cons:
  "Plot_stroke k (p0 # rest) = Some [Stroke (Move p0 # stroke_loop k p0 rest [])]"
  using stroke_loop_acc [of k p0 rest "[Move p0]"]
  by (simp add: Plot_stroke_def index_0 slice_from_1)

lemma stroke_loop_idx:
  "rest = drop (i + 1) l \<Longrightarrow> i < length l \<Longrightarrow> prev = l ! i \<Longrightarrow>
   stroke_loop k prev rest []
     = concat (map (\<lambda>j. stroke_step k (l ! j) (l ! (j + 1)) []) [i..<length l - 1])"
proof (induction rest arbitrary: i prev)
  case Nil
  then have "length l \<le> i + 1" by simp
  then show ?case by simp
next
  case (Cons pt rest)
  from Cons.prems(1) have lt: "i + 1 < length l"
    by (metis drop_eq_Nil2 list.distinct(1) not_le)
  have pt: "pt = l ! (i + 1)"
    using Cons.prems(1) lt by (metis Cons_nth_drop_Suc list.inject Suc_eq_plus1)
  have rest: "rest = drop (i + 1 + 1) l"
    using Cons.prems(1) lt by (metis Cons_nth_drop_Suc list.inject Suc_eq_plus1)
  have ih: "stroke_loop k pt rest []
              = concat (map (\<lambda>j. stroke_step k (l ! j) (l ! (j + 1)) []) [i + 1..<length l - 1])"
    using rest lt pt by (rule Cons.IH)
  have upt: "[i..<length l - 1] = i # [i + 1..<length l - 1]"
    using lt by (simp add: upt_conv_Cons)
  have "stroke_loop k prev (pt # rest) []
          = stroke_step k (l ! i) (l ! (i + 1)) [] @ stroke_loop k pt rest []"
    unfolding stroke_loop_Cons Cons.prems(3) using pt by simp
  also have "\<dots> = concat (map (\<lambda>j. stroke_step k (l ! j) (l ! (j + 1)) []) [i..<length l - 1])"
    unfolding ih upt by simp
  finally show ?case .
qed

lemma vertices_stroke_step:
  "\<exists>ins. vertices (stroke_step k prev pt []) = ins @ [pt]"
  by (simp add: stroke_step_def Let_def)

lemma subseq_stroke_loop: "subseq rest (vertices (stroke_loop k prev rest []))"
proof (induction rest arbitrary: prev)
  case Nil
  show ?case by simp
next
  case (Cons pt rest)
  obtain ins where ins: "vertices (stroke_step k prev pt []) = ins @ [pt]"
    using vertices_stroke_step by blast
  have "subseq (pt # rest) (pt # vertices (stroke_loop k pt rest []))"
    using Cons.IH by simp
  then have "subseq (pt # rest) (ins @ pt # vertices (stroke_loop k pt rest []))"
    by (simp add: list_emb_append2)
  then show ?case
    unfolding stroke_loop_Cons vertices_append ins by simp
qed


lemma Plot_strokes_eq:
  "Plot_strokes k lines
     = Some (map (\<lambda>l. Stroke (Move (hd l) # stroke_loop k (hd l) (tl l) []))
                 (filter (\<lambda>l. l \<noteq> []) lines))"
proof (induction lines)
  case Nil
  show ?case by simp
next
  case (Cons l ls)
  show ?case
  proof (cases l)
    case Nil
    then show ?thesis by (simp add: Cons.IH Plot_stroke_def)
  next
    case (Cons p0 rest)
    then show ?thesis by (simp add: Cons.IH Plot_stroke_Cons)
  qed
qed

lemma Plot_fill_nonempty:
  "ds \<noteq> [] \<Longrightarrow>
   Plot_fill k ds (int (length ds)) minY =
     Some (Move \<lparr>Point.X = Point.X (hd ds), Point.Y = minY\<rparr>
           # (if k \<noteq> PreStep then [Line (hd ds)] else [])
           @ fill_loop k (int (length ds)) 0 (hd ds) (tl ds) []
           @ [Line \<lparr>Point.X = Point.X (last ds), Point.Y = minY\<rparr>, Close])"
  using Plot_fill_Cons [of k "hd ds" "tl ds" minY] by simp

lemma Plot_closed_form:
  assumes "Transforms plt c = (trX, trY)"
  shows "Plot pts c plt =
     Some ((case FillColor pts of
              Some col \<Rightarrow>
                (if device trX trY (Step.XYs pts) = [] then []
                 else [SetColor col,
                       Fill (Move \<lparr>Point.X = Point.X (hd (device trX trY (Step.XYs pts))),
                                   Point.Y = trY (Y_Min plt)\<rparr>
                             # (if StepStyle pts \<noteq> PreStep
                                then [Line (hd (device trX trY (Step.XYs pts)))] else [])
                             @ fill_loop (StepStyle pts)
                                 (int (length (device trX trY (Step.XYs pts)))) 0
                                 (hd (device trX trY (Step.XYs pts)))
                                 (tl (device trX trY (Step.XYs pts))) []
                             @ [Line \<lparr>Point.X = Point.X (last (device trX trY (Step.XYs pts))),
                                      Point.Y = trY (Y_Min plt)\<rparr>,
                                Close])])
            | None \<Rightarrow> [])
           @ (case Step.LineStyle pts of
                Some sty \<Rightarrow>
                  (if ClipLinesXY c (device trX trY (Step.XYs pts)) = [] then []
                   else SetLineStyle sty
                        # map (\<lambda>l. Stroke (Move (hd l) # stroke_loop (StepStyle pts) (hd l) (tl l) []))
                              (filter (\<lambda>l. l \<noteq> []) (ClipLinesXY c (device trX trY (Step.XYs pts)))))
              | None \<Rightarrow> []))"
proof -
  have len: "int (length (Step.XYs pts)) = int (length (device trX trY (Step.XYs pts)))"
    by (simp add: device_def)
  show ?thesis
    unfolding Plot_def assms len
    by (simp add: Plot_fill_nonempty Plot_strokes_eq Let_def split: option.splits)
qed


section \<open>The float64 midpoint: evaluation\<close>

lemma pow2_pos: "0 < pow2 k"
  by (simp add: pow2_def)

lemma pow2_powr: "pow2 k = 2 powr of_int k"
  by (simp add: pow2_def powr_real_of_int inverse_eq_divide)

lemma floor_log2:
  assumes "pow2 k \<le> \<bar>x\<bar>" and "\<bar>x\<bar> < pow2 (k + 1)"
  shows "\<lfloor>log 2 \<bar>x\<bar>\<rfloor> = k"
proof (rule floor_unique)
  have pos: "0 < \<bar>x\<bar>"
    using assms(1) pow2_pos [of k] by linarith
  show "of_int k \<le> log 2 \<bar>x\<bar>"
    using assms(1) pos unfolding pow2_powr by (simp add: le_log_iff)
  show "log 2 \<bar>x\<bar> < of_int k + 1"
    using assms(2) pos unfolding pow2_powr by (simp add: log_less_iff add.commute)
qed

lemma round64_at:
  assumes "pow2 k \<le> \<bar>x\<bar>" and "\<bar>x\<bar> < pow2 (k + 1)" and "- 1022 \<le> k"
  shows "round64 x = of_int (round_even (x / pow2 (k - 52))) * pow2 (k - 52)"
proof -
  have "x \<noteq> 0"
    using assms(1) pow2_pos [of k] by auto
  then show ?thesis
    using assms(3) by (simp add: round64_def floor_log2 [OF assms(1,2)] Let_def max_def)
qed

lemma round64_tenth: "round64 (3602879701896397 / 2 ^ 55) = 3602879701896397 / 2 ^ 55"
proof -
  have "round64 (3602879701896397 / 2 ^ 55)
      = of_int (round_even (3602879701896397 / 2 ^ 55 / pow2 (- 4 - 52))) * pow2 (- 4 - 52)"
    by (rule round64_at) (simp_all add: pow2_def)
  also have "\<dots> = 3602879701896397 / 2 ^ 55"
    by (simp add: round_even_def pow2_def)
  finally show ?thesis .
qed

lemma round64_fifth: "round64 (3602879701896397 / 2 ^ 54) = 3602879701896397 / 2 ^ 54"
proof -
  have "round64 (3602879701896397 / 2 ^ 54)
      = of_int (round_even (3602879701896397 / 2 ^ 54 / pow2 (- 3 - 52))) * pow2 (- 3 - 52)"
    by (rule round64_at) (simp_all add: pow2_def)
  also have "\<dots> = 3602879701896397 / 2 ^ 54"
    by (simp add: round_even_def pow2_def)
  finally show ?thesis .
qed

lemma round64_sum_tenths:
  "round64 (3602879701896397 / 2 ^ 55 + 3602879701896397 / 2 ^ 54) = 5404319552844596 / 2 ^ 54"
proof -
  have "round64 (3602879701896397 / 2 ^ 55 + 3602879701896397 / 2 ^ 54)
      = of_int (round_even ((3602879701896397 / 2 ^ 55 + 3602879701896397 / 2 ^ 54)
                            / pow2 (- 2 - 52))) * pow2 (- 2 - 52)"
    by (rule round64_at) (simp_all add: pow2_def)
  also have "\<dots> = 5404319552844596 / 2 ^ 54"
    by (simp add: round_even_def pow2_def)
  finally show ?thesis .
qed

lemma round64_half_sum_tenths:
  "round64 (5404319552844596 / 2 ^ 54 / 2) = 5404319552844596 / 2 ^ 55"
proof -
  have "round64 (5404319552844596 / 2 ^ 54 / 2)
      = of_int (round_even (5404319552844596 / 2 ^ 54 / 2 / pow2 (- 3 - 52))) * pow2 (- 3 - 52)"
    by (rule round64_at) (simp_all add: pow2_def)
  also have "\<dots> = 5404319552844596 / 2 ^ 55"
    by (simp add: round_even_def pow2_def)
  finally show ?thesis .
qed

lemma f64_mid_tenths:
  "f64_mid (3602879701896397 / 2 ^ 55) (3602879701896397 / 2 ^ 54) = 5404319552844596 / 2 ^ 55"
  unfolding f64_mid_def round64_sum_tenths round64_half_sum_tenths ..

text \<open>Small integers and their halves are float64 numbers.\<close>

lemma round64_small:
  "round64 1 = 1" "round64 (1 / 2) = 1 / 2" "round64 3 = 3" "round64 (3 / 2) = 3 / 2"
proof -
  have "round64 1 = of_int (round_even (1 / pow2 (0 - 52))) * pow2 (0 - 52)"
    by (rule round64_at) (simp_all add: pow2_def)
  then show "round64 1 = 1"
    by (simp add: round_even_def pow2_def)
  have "round64 (1 / 2) = of_int (round_even (1 / 2 / pow2 (- 1 - 52))) * pow2 (- 1 - 52)"
    by (rule round64_at) (simp_all add: pow2_def)
  then show "round64 (1 / 2) = 1 / 2"
    by (simp add: round_even_def pow2_def)
  have "round64 3 = of_int (round_even (3 / pow2 (1 - 52))) * pow2 (1 - 52)"
    by (rule round64_at) (simp_all add: pow2_def)
  then show "round64 3 = 3"
    by (simp add: round_even_def pow2_def)
  have "round64 (3 / 2) = of_int (round_even (3 / 2 / pow2 (0 - 52))) * pow2 (0 - 52)"
    by (rule round64_at) (simp_all add: pow2_def)
  then show "round64 (3 / 2) = 3 / 2"
    by (simp add: round_even_def pow2_def)
qed

lemma f64_mid_small: "f64_mid 0 1 = 1 / 2" "f64_mid 1 2 = 3 / 2"
  by (simp_all add: f64_mid_def round64_small)

lemma strokes_map_Stroke: "strokes (map (\<lambda>l. Stroke (f l)) ls) = map f ls"
  by (induction ls) simp_all

text \<open>The paths that \<open>Plot\<close> strokes, one for each non-empty clipped line.\<close>

lemma Plot_strokes_closed:
  assumes tr: "Transforms plt c = (trX, trY)" and sty: "Step.LineStyle pts = Some sty"
  shows "\<exists>cmds. Plot pts c plt = Some cmds
           \<and> strokes cmds
               = map (\<lambda>l. Move (hd l) # stroke_loop (StepStyle pts) (hd l) (tl l) [])
                     (filter (\<lambda>l. l \<noteq> []) (ClipLinesXY c (device trX trY (Step.XYs pts))))"
proof -
  let ?lines = "ClipLinesXY c (device trX trY (Step.XYs pts))"
  let ?path = "\<lambda>l. Move (hd l) # stroke_loop (StepStyle pts) (hd l) (tl l) []"
  obtain filled where plot: "Plot pts c plt
      = Some (filled @ (if ?lines = [] then []
                        else SetLineStyle sty
                             # map (\<lambda>l. Stroke (?path l)) (filter (\<lambda>l. l \<noteq> []) ?lines)))"
    and filled: "strokes filled = []"
    unfolding Plot_closed_form [OF tr] sty
    by (cases "FillColor pts") simp_all
  have "strokes (if ?lines = [] then []
                 else SetLineStyle sty
                      # map (\<lambda>l. Stroke (?path l)) (filter (\<lambda>l. l \<noteq> []) ?lines))
        = map ?path (filter (\<lambda>l. l \<noteq> []) ?lines)"
    by (simp add: strokes_map_Stroke)
  then show ?thesis
    using plot filled by (simp add: strokes_append)
qed

lemma stroke_path_idx:
  assumes "l \<noteq> []"
  shows "Move (hd l) # stroke_loop k (hd l) (tl l) []
     = Move (l ! 0) # concat (map (\<lambda>j. stroke_step k (l ! j) (l ! (j + 1)) []) [0..<length l - 1])"
proof -
  from assms obtain p0 rest where l: "l = p0 # rest"
    by (cases l) auto
  have "stroke_loop k p0 rest []
          = concat (map (\<lambda>j. stroke_step k (l ! j) (l ! (j + 1)) []) [0..<length l - 1])"
    by (rule stroke_loop_idx) (simp_all add: l)
  then show ?thesis
    by (simp add: l)
qed

lemma stroke_paths_idx:
  "map (\<lambda>l. Move (hd l) # stroke_loop k (hd l) (tl l) []) (filter (\<lambda>l. l \<noteq> []) lines)
   = map (\<lambda>l. Move (l ! 0)
               # concat (map (\<lambda>j. stroke_step k (l ! j) (l ! (j + 1)) []) [0..<length l - 1]))
         (filter (\<lambda>l. l \<noteq> []) lines)"
  by (rule map_cong) (simp_all add: stroke_path_idx)

lemma last_stroke_loop:
  "rest \<noteq> [] \<Longrightarrow> stroke_loop k prev rest [] \<noteq> []
     \<and> last (stroke_loop k prev rest []) = Line (last rest)"
proof (induction rest arbitrary: prev)
  case Nil
  then show ?case by simp
next
  case (Cons pt rest)
  have step: "stroke_step k prev pt [] \<noteq> [] \<and> last (stroke_step k prev pt []) = Line pt"
    by (simp add: stroke_step_def Let_def)
  show ?case
  proof (cases rest)
    case Nil
    then show ?thesis
      unfolding stroke_loop_Cons using step by simp
  next
    case (Cons pt' rest')
    then have "rest \<noteq> []" by simp
    from Cons.IH [OF this, of pt] show ?thesis
      unfolding stroke_loop_Cons using \<open>rest \<noteq> []\<close> by simp
  qed
qed

lemma whole_line_stroke:
  assumes "2 \<le> length ds"
  shows "hd (Move (hd ds) # stroke_loop k (hd ds) (tl ds) []) = Move (hd ds)
     \<and> last (Move (hd ds) # stroke_loop k (hd ds) (tl ds) []) = Line (last ds)
     \<and> subseq ds (vertices (Move (hd ds) # stroke_loop k (hd ds) (tl ds) []))"
proof -
  from assms obtain p0 p1 rest where ds: "ds = p0 # p1 # rest"
    by (cases ds; cases "tl ds") auto
  have "subseq (p1 # rest) (vertices (stroke_loop k p0 (p1 # rest) []))"
    by (rule subseq_stroke_loop)
  then show ?thesis
    using last_stroke_loop [of "p1 # rest" k p0] by (simp add: ds)
qed

section \<open>The stroke path\<close>




section \<open>The baseline of the fill polygon\<close>

text \<open>
  C5, as the specification states it: the baseline \<open>minY\<close> of the fill polygon would be
  the device-space y-coordinate of the data value zero. The code takes
  \<^verbatim>\<open>minY := trY(plt.Y.Min)\<close>, the device-space y-coordinate of the minimum of the y
  axis. For the data \<open>(0,-1), (1,-3)\<close>, whose filled data range is \<open>ymin = -3\<close>,
  \<open>ymax = 0\<close>, on a plot with that axis minimum and identity transforms, the polygon
  opens and closes at \<open>y = -3\<close>, while the data value zero lies at \<open>y = 0\<close>.
\<close>

theorem C5_counterexample:
  "DataRange (XYRange (0, 0, 0, 0)) negative_step = (0, 1, - 3, 0)
   \<and> Plot negative_step whole_canvas (identity_plot (- 3))
       = Some [SetColor 2,
               Fill [Move \<lparr>Point.X = 0, Point.Y = - 3\<rparr>, Line \<lparr>Point.X = 0, Point.Y = - 1\<rparr>,
                     Line \<lparr>Point.X = 1, Point.Y = - 1\<rparr>,
                     Line \<lparr>Point.X = 1, Point.Y = - 3\<rparr>, Close]]
   \<and> snd (Transforms (identity_plot (- 3)) whole_canvas) 0 \<noteq> - 3"
  by (simp add: DataRange_def negative_step_def Plot_def identity_plot_def device_def
      Plot_fill_def index_def slice_from_def fill_step_def PreStep_def MidStep_def PostStep_def)

text \<open>
  C5, amended: when \<^verbatim>\<open>FillColor\<close> is set and there is at least one point, \<open>Plot\<close> first
  sets the colour and fills a path that opens with the move to
  \<open>(trX(points[0].x), trY(plt.Y.Min))\<close> and ends with the line to
  \<open>(trX(points[n-1].x), trY(plt.Y.Min))\<close> and \<open>Close\<close>: the baseline is the device-space
  y-coordinate of the minimum of the plot's y axis (which is the zero line exactly when
  \<open>trY(plt.Y.Min) = trY(0)\<close>).
\<close>

theorem C5_baseline:
  assumes "Transforms plt c = (trX, trY)" and "FillColor pts = Some col" and "Step.XYs pts \<noteq> []"
  shows "\<exists>pa rest. Plot pts c plt = Some (SetColor col # Fill pa # rest)
      \<and> hd pa = Move \<lparr>Point.X = trX (XY.X (hd (Step.XYs pts))), Point.Y = trY (Y_Min plt)\<rparr>
      \<and> last (butlast pa)
          = Line \<lparr>Point.X = trX (XY.X (last (Step.XYs pts))), Point.Y = trY (Y_Min plt)\<rparr>
      \<and> last pa = Close"
proof -
  have ds: "device trX trY (Step.XYs pts) \<noteq> []"
    using assms(3) by (simp add: device_def)
  have h: "Point.X (hd (device trX trY (Step.XYs pts))) = trX (XY.X (hd (Step.XYs pts)))"
    using assms(3) by (simp add: device_def hd_map)
  have l: "Point.X (last (device trX trY (Step.XYs pts))) = trX (XY.X (last (Step.XYs pts)))"
    using assms(3) by (simp add: device_def last_map)
  show ?thesis
    unfolding Plot_closed_form [OF assms(1)] assms(2) h l using ds
    by (simp add: butlast_append)
qed

theorem C5_baseline_witness:
  "Transforms (identity_plot (- 3)) whole_canvas = (id, id)
   \<and> FillColor negative_step = Some 2
   \<and> Step.XYs negative_step \<noteq> []
   \<and> (\<exists>pa rest. Plot negative_step whole_canvas (identity_plot (- 3))
                    = Some (SetColor 2 # Fill pa # rest)
         \<and> hd pa = Move \<lparr>Point.X = 0, Point.Y = - 3\<rparr>
         \<and> last (butlast pa) = Line \<lparr>Point.X = 1, Point.Y = - 3\<rparr>
         \<and> last pa = Close)"
proof -
  have tr: "Transforms (identity_plot (- 3)) whole_canvas = (id, id)"
    by (simp add: identity_plot_def)
  have col: "FillColor negative_step = Some 2"
    by (simp add: negative_step_def)
  have ne: "Step.XYs negative_step \<noteq> []"
    by (simp add: negative_step_def)
  have ymin: "Y_Min (identity_plot (- 3)) = - 3"
    by (simp add: identity_plot_def)
  have ends: "XY.X (hd (Step.XYs negative_step)) = 0" "XY.X (last (Step.XYs negative_step)) = 1"
    by (simp_all add: negative_step_def)
  show ?thesis
    using C5_baseline [OF tr col ne] tr col ne unfolding ymin ends by simp
qed

section \<open>DataRange\<close>

lemma XYRange_tight:
  assumes "xys \<noteq> []"
  shows "XYRange d xys =
     (Min (XY.X ` set xys), Max (XY.X ` set xys), Min (XY.Y ` set xys), Max (XY.Y ` set xys))"
proof -
  from assms obtain p ps where xys: "xys = p # ps"
    by (cases xys) auto
  have a: "fold min (map f ps) (f p) = Min (f ` set (p # ps))" for f :: "XY \<Rightarrow> real"
    using Min.set_eq_fold [of "f p" "map f ps"] by simp
  have b: "fold max (map f ps) (f p) = Max (f ` set (p # ps))" for f :: "XY \<Rightarrow> real"
    using Max.set_eq_fold [of "f p" "map f ps"] by simp
  show ?thesis
    unfolding xys XYRange.simps a b ..
qed

text \<open>
  C6: with a fill colour, \<open>DataRange\<close> returns the bounding box with only its y-range
  widened to include 0, \<open>ymin = min(ymin, 0)\<close> and \<open>ymax = max(ymax, 0)\<close>; without a
  fill colour it returns the bounding box unchanged. With the tight bounding box of a
  non-empty sequence, \<open>ymin\<close> is 0 when all y-values are positive and \<open>ymax\<close> is 0
  when all y-values are negative.
\<close>

theorem C6_data_range:
  fixes pts :: "('c, 'l) Step"
  shows
  "(FillColor pts \<noteq> None \<and> xyrange (Step.XYs pts) = (xmin, xmax, ymin, ymax) \<longrightarrow>
      DataRange xyrange pts = (xmin, xmax, min ymin 0, max ymax 0))
   \<and> (FillColor pts = None \<longrightarrow> DataRange xyrange pts = xyrange (Step.XYs pts))
   \<and> (FillColor pts \<noteq> None \<and> Step.XYs pts \<noteq> [] \<longrightarrow>
      DataRange (XYRange d) pts =
        (Min (XY.X ` set (Step.XYs pts)), Max (XY.X ` set (Step.XYs pts)),
         min (Min (XY.Y ` set (Step.XYs pts))) 0, max (Max (XY.Y ` set (Step.XYs pts))) 0))
   \<and> (FillColor pts \<noteq> None \<and> Step.XYs pts \<noteq> [] \<and> (\<forall>p \<in> set (Step.XYs pts). 0 < XY.Y p) \<longrightarrow>
      fst (snd (snd (DataRange (XYRange d) pts))) = 0)
   \<and> (FillColor pts \<noteq> None \<and> Step.XYs pts \<noteq> [] \<and> (\<forall>p \<in> set (Step.XYs pts). XY.Y p < 0) \<longrightarrow>
      snd (snd (snd (DataRange (XYRange d) pts))) = 0)"
proof (intro conjI impI)
  assume "FillColor pts \<noteq> None \<and> xyrange (Step.XYs pts) = (xmin, xmax, ymin, ymax)"
  then show "DataRange xyrange pts = (xmin, xmax, min ymin 0, max ymax 0)"
    by (simp add: DataRange_def)
next
  assume "FillColor pts = None"
  then show "DataRange xyrange pts = xyrange (Step.XYs pts)"
    by (simp add: DataRange_def)
next
  assume a: "FillColor pts \<noteq> None \<and> Step.XYs pts \<noteq> []"
  then show "DataRange (XYRange d) pts =
        (Min (XY.X ` set (Step.XYs pts)), Max (XY.X ` set (Step.XYs pts)),
         min (Min (XY.Y ` set (Step.XYs pts))) 0, max (Max (XY.Y ` set (Step.XYs pts))) 0)"
    by (simp add: DataRange_def XYRange_tight)
next
  assume a: "FillColor pts \<noteq> None \<and> Step.XYs pts \<noteq> [] \<and> (\<forall>p \<in> set (Step.XYs pts). 0 < XY.Y p)"
  then have "0 < Min (XY.Y ` set (Step.XYs pts))"
    by simp
  then show "fst (snd (snd (DataRange (XYRange d) pts))) = 0"
    using a by (simp add: DataRange_def XYRange_tight)
next
  assume a: "FillColor pts \<noteq> None \<and> Step.XYs pts \<noteq> [] \<and> (\<forall>p \<in> set (Step.XYs pts). XY.Y p < 0)"
  then have "Max (XY.Y ` set (Step.XYs pts)) < 0"
    by simp
  then show "snd (snd (snd (DataRange (XYRange d) pts))) = 0"
    using a by (simp add: DataRange_def XYRange_tight)
qed

theorem C6_data_range_witness:
  "FillColor (example_step PostStep) \<noteq> None
   \<and> Step.XYs (example_step PostStep) \<noteq> []
   \<and> DataRange (XYRange (0, 0, 0, 0)) (example_step PostStep) = (0, 2, 0, 3)
   \<and> fst (snd (snd (DataRange (XYRange (0, 0, 0, 0)) (example_step PostStep)))) = 0
   \<and> snd (snd (snd (DataRange (XYRange (0, 0, 0, 0)) negative_step))) = 0
   \<and> FillColor ((example_step PostStep)\<lparr>FillColor := None\<rparr>) = None
   \<and> DataRange (XYRange (0, 0, 0, 0)) ((example_step PostStep)\<lparr>FillColor := None\<rparr>)
       = XYRange (0, 0, 0, 0) (Step.XYs (example_step PostStep))"
proof -
  let ?d = "(0, 0, 0, 0) :: Range4"
  let ?pts = "example_step PostStep"
  have fill: "FillColor ?pts \<noteq> None" "FillColor negative_step \<noteq> None"
    by (simp_all add: example_step_def negative_step_def)
  have ne: "Step.XYs ?pts \<noteq> []" "Step.XYs negative_step \<noteq> []"
    by (simp_all add: example_step_def negative_step_def)
  have pos: "\<forall>p \<in> set (Step.XYs ?pts). 0 < XY.Y p"
    by (simp add: example_step_def)
  have neg: "\<forall>p \<in> set (Step.XYs negative_step). XY.Y p < 0"
    by (simp add: negative_step_def)
  have box: "XYRange ?d (Step.XYs ?pts) = (0, 2, 1, 3)"
    by (simp add: example_step_def)
  have nofill: "FillColor (?pts\<lparr>FillColor := None\<rparr>) = None"
    by simp
  note a = C6_data_range [where pts = ?pts and xyrange = "XYRange ?d" and d = ?d
      and xmin = 0 and xmax = 2 and ymin = 1 and ymax = 3]
  note b = C6_data_range [where pts = negative_step and d = ?d]
  note c = C6_data_range [where pts = "?pts\<lparr>FillColor := None\<rparr>" and xyrange = "XYRange ?d"]
  have 1: "DataRange (XYRange ?d) ?pts = (0, 2, 0, 3)"
    using a fill(1) box by simp
  have 2: "fst (snd (snd (DataRange (XYRange ?d) ?pts))) = 0"
    using a fill(1) ne(1) pos by blast
  have 3: "snd (snd (snd (DataRange (XYRange ?d) negative_step))) = 0"
    using b fill(2) ne(2) neg by blast
  have 4: "DataRange (XYRange ?d) (?pts\<lparr>FillColor := None\<rparr>) = XYRange ?d (Step.XYs ?pts)"
    using c nofill by simp
  show ?thesis
    using fill(1) ne(1) nofill 1 2 3 4 by blast
qed

section \<open>Sub-polylines of a single point\<close>



section \<open>Construction and failure\<close>

text \<open>
  C9: \<open>NewStep\<close> returns an error exactly when copying the caller's data returns that
  error, and otherwise the step with the copied data, the default line style, the style
  \<open>PreStep\<close> and no fill colour; it makes no canvas call. \<open>Plot\<close> never panics, whatever
  the step, the canvas and the plot; for an empty sequence and a clip that returns no
  line it makes no canvas call at all. (\<open>DataRange\<close> and \<open>Thumbnail\<close> have no operation
  that can fail: they are total functions of the model.)
\<close>

theorem C9_errors:
  fixes copyXYs :: "'x \<Rightarrow> 'e + XY list" and pts :: "('c, 'l) Step"
  shows
  "((NewStep copyXYs dls xys :: 'e + ('c, 'l) Step) = Inl e \<longleftrightarrow> copyXYs xys = Inl e)
   \<and> ((\<exists>st. (NewStep copyXYs dls xys :: 'e + ('c, 'l) Step) = Inr st)
        \<longleftrightarrow> (\<exists>data. copyXYs xys = Inr data))
   \<and> (copyXYs xys = Inr data \<longrightarrow>
        (NewStep copyXYs dls xys :: 'e + ('c, 'l) Step)
          = Inr \<lparr>Step.XYs = data, StepStyle = PreStep, Step.LineStyle = Some dls, FillColor = None\<rparr>)
   \<and> (\<exists>cmds. Plot pts c plt = Some cmds)
   \<and> (Step.XYs pts = [] \<and> ClipLinesXY c [] = [] \<longrightarrow> Plot pts c plt = Some [])"
proof (intro conjI impI)
  show "((NewStep copyXYs dls xys :: 'e + ('c, 'l) Step) = Inl e) = (copyXYs xys = Inl e)"
    by (cases "copyXYs xys") (simp_all add: NewStep_def)
  show "(\<exists>st. (NewStep copyXYs dls xys :: 'e + ('c, 'l) Step) = Inr st)
        = (\<exists>data. copyXYs xys = Inr data)"
    by (cases "copyXYs xys") (simp_all add: NewStep_def)
  show "(NewStep copyXYs dls xys :: 'e + ('c, 'l) Step)
          = Inr \<lparr>Step.XYs = data, StepStyle = PreStep, Step.LineStyle = Some dls, FillColor = None\<rparr>"
    if "copyXYs xys = Inr data"
    using that by (simp add: NewStep_def PreStep_def)
  obtain trX trY where tr: "Transforms plt c = (trX, trY)"
    by (cases "Transforms plt c") auto
  show "\<exists>cmds. Plot pts c plt = Some cmds"
    unfolding Plot_closed_form [OF tr] by blast
  show "Plot pts c plt = Some []" if "Step.XYs pts = [] \<and> ClipLinesXY c [] = []"
    unfolding Plot_closed_form [OF tr] using that
    by (simp add: device_def split: option.splits)
qed

theorem C9_errors_witness:
  "(NewStep Inl (1::nat) (7::nat) :: nat + (nat, nat) Step) = Inl 7
   \<and> (NewStep Inr (1::nat) (Step.XYs (example_step PreStep)) :: nat + (nat, nat) Step)
       = Inr \<lparr>Step.XYs = Step.XYs (example_step PreStep), StepStyle = PreStep,
              Step.LineStyle = Some 1, FillColor = None\<rparr>
   \<and> Step.XYs ((example_step PreStep)\<lparr>Step.XYs := []\<rparr>) = []
   \<and> ClipLinesXY (whole_canvas\<lparr>ClipLinesXY := clip_nothing\<rparr>) [] = []
   \<and> Plot ((example_step PreStep)\<lparr>Step.XYs := []\<rparr>)
        (whole_canvas\<lparr>ClipLinesXY := clip_nothing\<rparr>) (identity_plot 0) = Some []"
proof -
  let ?pts = "(example_step PreStep)\<lparr>Step.XYs := []\<rparr>"
  let ?c = "whole_canvas\<lparr>ClipLinesXY := clip_nothing\<rparr>"
  note a = C9_errors [where copyXYs = Inl and dls = "1::nat" and xys = "7::nat" and e = "7::nat"
      and pts = ?pts and c = ?c and plt = "identity_plot 0"]
  note b = C9_errors [where copyXYs = Inr and dls = "1::nat"
      and xys = "Step.XYs (example_step PreStep)" and data = "Step.XYs (example_step PreStep)"
      and pts = ?pts and c = ?c and plt = "identity_plot 0"]
  have e: "Step.XYs ?pts = []"
    by simp
  have cl: "ClipLinesXY ?c [] = []"
    by (simp add: clip_nothing_def)
  have 1: "(NewStep Inl (1::nat) (7::nat) :: nat + (nat, nat) Step) = Inl 7"
    using a [THEN conjunct1] by simp
  have 2: "(NewStep Inr (1::nat) (Step.XYs (example_step PreStep)) :: nat + (nat, nat) Step)
       = Inr \<lparr>Step.XYs = Step.XYs (example_step PreStep), StepStyle = PreStep,
              Step.LineStyle = Some 1, FillColor = None\<rparr>"
    using b [THEN conjunct2, THEN conjunct2, THEN conjunct1] by simp
  have 3: "Plot ?pts ?c (identity_plot 0) = Some []"
    using a [THEN conjunct2, THEN conjunct2, THEN conjunct2, THEN conjunct2] e cl by simp
  show ?thesis
    using e cl 1 2 3 by simp
qed

section \<open>Step styles other than the three constants\<close>

lemma fill_loop_other:
  "k \<noteq> PreStep \<Longrightarrow> k \<noteq> MidStep \<Longrightarrow> k \<noteq> PostStep \<Longrightarrow> fill_loop k n i prev rest pa = pa"
  by (induction rest arbitrary: i prev) (simp_all add: fill_step_def)

lemma stroke_loop_other:
  "k \<noteq> PreStep \<Longrightarrow> k \<noteq> MidStep \<Longrightarrow> k \<noteq> PostStep \<Longrightarrow>
   stroke_loop k prev rest p = p @ map Line rest"
  by (induction rest arbitrary: prev p) (simp_all add: stroke_step_def)

text \<open>
  C10: for a step style other than \<open>PreStep\<close>, \<open>MidStep\<close> and \<open>PostStep\<close>, \<open>Plot\<close> does
  not fail. The fill polygon consists of the baseline start \<open>(points[0].x, minY)\<close>, the
  first point and the baseline end \<open>(points[n-1].x, minY)\<close> only, and every non-empty
  clipped line is stroked from point to point, with no vertex inserted.
\<close>

theorem C10_other_style:
  assumes "StepStyle pts \<noteq> PreStep" and "StepStyle pts \<noteq> MidStep" and "StepStyle pts \<noteq> PostStep"
    and "Transforms plt c = (trX, trY)"
  shows "Plot pts c plt =
     Some ((case FillColor pts of
              Some col \<Rightarrow>
                (if Step.XYs pts = [] then []
                 else [SetColor col,
                       Fill [Move \<lparr>Point.X = trX (XY.X (hd (Step.XYs pts))), Point.Y = trY (Y_Min plt)\<rparr>,
                             Line \<lparr>Point.X = trX (XY.X (hd (Step.XYs pts))),
                                   Point.Y = trY (XY.Y (hd (Step.XYs pts)))\<rparr>,
                             Line \<lparr>Point.X = trX (XY.X (last (Step.XYs pts))), Point.Y = trY (Y_Min plt)\<rparr>,
                             Close]])
            | None \<Rightarrow> [])
           @ (case Step.LineStyle pts of
                Some sty \<Rightarrow>
                  (if ClipLinesXY c (device trX trY (Step.XYs pts)) = [] then []
                   else SetLineStyle sty
                        # map (\<lambda>l. Stroke (Move (hd l) # map Line (tl l)))
                              (filter (\<lambda>l. l \<noteq> []) (ClipLinesXY c (device trX trY (Step.XYs pts)))))
              | None \<Rightarrow> []))"
proof -
  have e: "(device trX trY (Step.XYs pts) = []) = (Step.XYs pts = [])"
    by (simp add: device_def)
  have h: "Step.XYs pts \<noteq> [] \<Longrightarrow> hd (device trX trY (Step.XYs pts))
       = \<lparr>Point.X = trX (XY.X (hd (Step.XYs pts))), Point.Y = trY (XY.Y (hd (Step.XYs pts)))\<rparr>"
    by (simp add: device_def hd_map)
  have l: "Step.XYs pts \<noteq> [] \<Longrightarrow> Point.X (last (device trX trY (Step.XYs pts)))
       = trX (XY.X (last (Step.XYs pts)))"
    by (simp add: device_def last_map)
  show ?thesis
    unfolding Plot_closed_form [OF assms(4)] e
    using assms(1-3)
    by (simp add: fill_loop_other stroke_loop_other h l split: option.splits)
qed

theorem C10_other_style_witness:
  "StepStyle (example_step 7) \<noteq> PreStep \<and> StepStyle (example_step 7) \<noteq> MidStep
   \<and> StepStyle (example_step 7) \<noteq> PostStep
   \<and> Transforms (identity_plot 0) whole_canvas = (id, id)
   \<and> Plot (example_step 7) whole_canvas (identity_plot 0) =
       Some [SetColor 2,
             Fill [Move \<lparr>Point.X = 0, Point.Y = 0\<rparr>, Line \<lparr>Point.X = 0, Point.Y = 1\<rparr>,
                   Line \<lparr>Point.X = 2, Point.Y = 0\<rparr>, Close],
             SetLineStyle 1,
             Stroke [Move \<lparr>Point.X = 0, Point.Y = 1\<rparr>, Line \<lparr>Point.X = 1, Point.Y = 3\<rparr>,
                     Line \<lparr>Point.X = 2, Point.Y = 2\<rparr>]]"
proof -
  have k: "StepStyle (example_step 7) \<noteq> PreStep" "StepStyle (example_step 7) \<noteq> MidStep"
    "StepStyle (example_step 7) \<noteq> PostStep"
    by (simp_all add: example_step_def PreStep_def MidStep_def PostStep_def)
  have tr: "Transforms (identity_plot 0) whole_canvas = (id, id)"
    by (simp add: identity_plot_def)
  have "Plot (example_step 7) whole_canvas (identity_plot 0) =
       Some [SetColor 2,
             Fill [Move \<lparr>Point.X = 0, Point.Y = 0\<rparr>, Line \<lparr>Point.X = 0, Point.Y = 1\<rparr>,
                   Line \<lparr>Point.X = 2, Point.Y = 0\<rparr>, Close],
             SetLineStyle 1,
             Stroke [Move \<lparr>Point.X = 0, Point.Y = 1\<rparr>, Line \<lparr>Point.X = 1, Point.Y = 3\<rparr>,
                     Line \<lparr>Point.X = 2, Point.Y = 2\<rparr>]]"
    unfolding C10_other_style [OF k tr]
    by (simp add: example_step_def identity_plot_def whole_canvas_def clip_whole_def device_def)
  then show ?thesis
    using k tr by blast
qed

section \<open>The two versions\<close>

lemma fill_step_old_eq: "fill_step_old = fill_step"
  by (intro ext)
    (simp add: fill_step_old_def fill_step_def StepTypePre_def StepTypeMid_def StepTypePost_def
      PreStep_def MidStep_def PostStep_def)

lemma fill_loop_old_eq: "fill_loop_old k n i prev rest pa = fill_loop k n i prev rest pa"
  by (induction rest arbitrary: i prev pa) (simp_all add: fill_step_old_eq)

lemma Plot_fill_old_eq: "Plot_fill_old k ps m minY = Plot_fill k ps m minY"
  by (simp add: Plot_fill_old_def Plot_fill_def fill_loop_old_eq StepTypePre_def PreStep_def)

lemma stroke_step_old_eq: "stroke_step_old = stroke_step"
  by (intro ext)
    (simp add: stroke_step_old_def stroke_step_def StepTypePre_def StepTypeMid_def
      StepTypePost_def PreStep_def MidStep_def PostStep_def)

lemma stroke_loop_old_eq: "stroke_loop_old k prev rest p = stroke_loop k prev rest p"
  by (induction rest arbitrary: prev p) (simp_all add: stroke_step_old_eq)

lemma Plot_stroke_old_eq: "Plot_stroke_old k l = Plot_stroke k l"
  by (simp add: Plot_stroke_old_def Plot_stroke_def stroke_loop_old_eq)

lemma Plot_strokes_old_eq: "Plot_strokes_old k ls = Plot_strokes k ls"
  by (induction ls) (simp_all add: Plot_stroke_old_eq)

lemma renamed_fields:
  "Step.XYs (renamed pts) = Step_old.XYs pts"
  "StepStyle (renamed pts) = StepType pts"
  "Step.LineStyle (renamed pts) = Step_old.LineStyle pts"
  "FillColor (renamed pts) = ShadeColor pts"
  by (simp_all add: renamed_def)

lemma Plot_old_eq: "Plot_old pts c plt = Plot (renamed pts) c plt"
proof -
  have f: "Plot_fill_old = Plot_fill"
    by (intro ext) (rule Plot_fill_old_eq)
  have g: "(Plot_strokes_old :: StepType \<Rightarrow> Point list list \<Rightarrow> ('a, 'b) Cmd list option)
             = Plot_strokes"
    by (intro ext) (rule Plot_strokes_old_eq)
  show ?thesis
    unfolding Plot_old_def Plot_def renamed_fields f g ..
qed

lemma DataRange_old_eq: "DataRange_old xyrange pts = DataRange xyrange (renamed pts)"
  unfolding DataRange_old_def DataRange_def renamed_fields ..




end
